theory Spec2Isabelle
  imports Complex_Main
begin

section \<open>Data model\<close>

text \<open>
  A Python \<^verbatim>\<open>str\<close> is a sequence of Unicode code points, so it is modelled as a list of
  natural numbers; \<open>str\<close> turns an ASCII literal into that form. A numpy sample array is the
  list of its sample values, taken to be finite; what numpy computes from an array in
  floating point is not recomputed here but asked of a collaborator. Wall-clock readings and
  durations are reals.
\<close>

type_synonym pystr = "nat list"

type_synonym audio = "real list"

definition str :: "string \<Rightarrow> pystr" where
  "str s = map of_char s"

text \<open>The exceptions the modelled code raises or lets through.\<close>

datatype py_error = RuntimeError | OSError | AttributeError | Full | Empty

text \<open>\<^verbatim>\<open>TranscriptSegment\<close> of \<^verbatim>\<open>whisper_engine.py\<close>.\<close>

record TranscriptSegment =
  "text" :: pystr
  language :: pystr
  language_confidence :: real
  start_time :: real
  end_time :: real
  transcription_time :: real

text \<open>\<^verbatim>\<open>TranslationResult\<close> of \<^verbatim>\<open>ollama_engine.py\<close>.\<close>

record TranslationResult =
  source_text :: pystr
  translated_text :: pystr
  source_language :: pystr
  target_language :: pystr
  translation_time :: real
  model :: pystr

text \<open>\<^verbatim>\<open>PipelineItem\<close> of \<^verbatim>\<open>pipeline.py\<close>; \<open>pharma_flags\<close> is always the empty default.\<close>

record PipelineItem =
  transcript :: TranscriptSegment
  translation :: "TranslationResult option"
  pharma_flags :: "pystr list"
  timestamp :: real

subsection \<open>The standard library's bounded queue\<close>

text \<open>
  \<^verbatim>\<open>queue.Queue(maxsize)\<close>: a FIFO whose \<^verbatim>\<open>put_nowait\<close> raises \<^verbatim>\<open>Full\<close> when
  \<^verbatim>\<open>maxsize > 0\<close> and the size has reached it (a \<^verbatim>\<open>maxsize\<close> of zero or less means
  unbounded), and whose \<^verbatim>\<open>get_nowait\<close> raises \<^verbatim>\<open>Empty\<close> on an empty queue. The head of
  \<open>items\<close> is the oldest entry.
\<close>

record 'a Queue =
  maxsize :: int
  items :: "'a list"

definition Queue_init :: "int \<Rightarrow> 'a Queue" where
  "Queue_init m = \<lparr>maxsize = m, items = []\<rparr>"

definition qsize :: "'a Queue \<Rightarrow> nat" where
  "qsize q = length (items q)"

definition put_nowait :: "'a Queue \<Rightarrow> 'a \<Rightarrow> py_error + 'a Queue" where
  "put_nowait q x =
     (if 0 < maxsize q \<and> maxsize q \<le> int (qsize q) then Inl Full
      else Inr (q\<lparr>items := items q @ [x]\<rparr>))"

definition get_nowait :: "'a Queue \<Rightarrow> py_error + ('a \<times> 'a Queue)" where
  "get_nowait q =
     (case items q of
        [] \<Rightarrow> Inl Empty
      | x # rest \<Rightarrow> Inr (x, q\<lparr>items := rest\<rparr>))"

text \<open>
  \<^verbatim>\<open>get(timeout=1)\<close> as one thread sees it when nothing is put meanwhile: the oldest item, or
  \<^verbatim>\<open>Empty\<close> once the timeout has passed.
\<close>

definition get_timeout :: "'a Queue \<Rightarrow> py_error + ('a \<times> 'a Queue)" where
  "get_timeout q = get_nowait q"

subsection \<open>Statistics and pipeline state\<close>

record Stats =
  chunks_captured :: int
  chunks_transcribed :: int
  chunks_translated :: int
  chunks_dropped :: int
  total_whisper_time :: real
  total_translate_time :: real

definition Stats_init :: Stats where
  "Stats_init = \<lparr>chunks_captured = 0, chunks_transcribed = 0, chunks_translated = 0,
     chunks_dropped = 0, total_whisper_time = 0, total_translate_time = 0\<rparr>"

text \<open>
  \<^verbatim>\<open>AudioDevice\<close> and the lifecycle fields of \<^verbatim>\<open>AudioCapture\<close> (\<^verbatim>\<open>capture.py\<close>): \<open>pa\<close> and
  \<open>stream\<close> say whether the PortAudio handle and the loopback stream exist. The sample buffer,
  which the PortAudio callback fills, stays outside the model: what
  \<^verbatim>\<open>get_audio_chunk\<close> returns is an input of the producer.
\<close>

record AudioDevice =
  index :: int
  name :: pystr
  channels :: int
  sample_rate :: int
  is_loopback :: bool
  is_default :: bool

record AudioCapture =
  pa :: bool
  stream :: bool
  is_capturing :: bool
  cap_device_index :: "int option"
  target_sample_rate :: int
  source_sample_rate :: "int option"
  source_channels :: "int option"

text \<open>The configuration a \<^verbatim>\<open>WhisperEngine\<close> keeps; the loaded model is a collaborator.\<close>

record WhisperEngine =
  model_name :: pystr
  beam_size :: int
  device :: pystr
  compute_type :: pystr

text \<open>The fields of an \<^verbatim>\<open>OllamaEngine\<close>.\<close>

record OllamaEngine =
  base_url :: pystr
  ollama_model :: pystr
  timeout :: int
  prompt_ru_to_en :: pystr
  prompt_en_to_ru :: pystr

datatype thread = AudioProducer | WhisperWorker | OllamaWorker

text \<open>The attributes of a \<^verbatim>\<open>Pipeline\<close> object (\<^verbatim>\<open>Pipeline.__init__\<close>).\<close>

record Pipeline =
  segment_duration :: real
  device_index :: "int option"
  audio_queue :: "audio Queue"
  transcript_queue :: "TranscriptSegment Queue"
  running :: bool
  threads :: "thread list"
  capture :: "AudioCapture option"
  whisper :: "WhisperEngine option"
  ollama :: "OllamaEngine option"
  stats :: Stats

definition Pipeline_init :: "real \<Rightarrow> int option \<Rightarrow> Pipeline" where
  "Pipeline_init seg_dur dev =
     \<lparr>segment_duration = seg_dur, device_index = dev,
      audio_queue = Queue_init 20, transcript_queue = Queue_init 20,
      running = False, threads = [],
      capture = None, whisper = None, ollama = None,
      stats = Stats_init\<rparr>"

section \<open>Statistics report\<close>

text \<open>
  What \<^verbatim>\<open>_print_stats\<close> derives from a copy of the counters: the two averages, printed only
  when their divisor is positive, and the coverage of lines 298 and 299,
  \<^verbatim>\<open>transcribed / captured * 100 if captured > 0 else 0\<close>, printed with a percent sign.
\<close>

definition avg_w :: "Stats \<Rightarrow> real option" where
  "avg_w s =
     (if chunks_transcribed s > 0
      then Some (total_whisper_time s / real_of_int (chunks_transcribed s)) else None)"

definition avg_t :: "Stats \<Rightarrow> real option" where
  "avg_t s =
     (if chunks_translated s > 0
      then Some (total_translate_time s / real_of_int (chunks_translated s)) else None)"

definition coverage :: "Stats \<Rightarrow> real" where
  "coverage s =
     (if chunks_captured s > 0
      then real_of_int (chunks_transcribed s) / real_of_int (chunks_captured s) * 100
      else 0)"

section \<open>Strings\<close>

text \<open>
  \<^verbatim>\<open>str.strip()\<close> removes leading and trailing white space, which for Python is the code
  points below. \<^verbatim>\<open>startswith\<close>, \<^verbatim>\<open>endswith\<close> and \<^verbatim>\<open>a in b\<close> are the usual tests.
\<close>

definition isspace :: "nat \<Rightarrow> bool" where
  "isspace c \<longleftrightarrow>
     c \<in> set [9, 10, 11, 12, 13, 28, 29, 30, 31, 32, 133, 160, 5760,
               8192, 8193, 8194, 8195, 8196, 8197, 8198, 8199, 8200, 8201, 8202,
               8232, 8233, 8239, 8287, 12288]"

definition strip :: "pystr \<Rightarrow> pystr" where
  "strip t = rev (dropWhile isspace (rev (dropWhile isspace t)))"

definition startswith :: "pystr \<Rightarrow> pystr \<Rightarrow> bool" where
  "startswith t p \<longleftrightarrow> take (length p) t = p"

definition endswith :: "pystr \<Rightarrow> pystr \<Rightarrow> bool" where
  "endswith t p \<longleftrightarrow> length p \<le> length t \<and> drop (length t - length p) t = p"

fun str_in :: "pystr \<Rightarrow> pystr \<Rightarrow> bool" where
  "str_in p [] = (p = [])"
| "str_in p (c # cs) = (take (length p) (c # cs) = p \<or> str_in p cs)"

section \<open>Collaborators\<close>

text \<open>
  Everything outside the repository that the code calls is gathered in one record, a
  snapshot of how the outside answers: \<^verbatim>\<open>str.lower\<close>; the Ollama service (the answer to
  \<^verbatim>\<open>GET /api/tags\<close>, and for each chat request either the exception class that the
  \<^verbatim>\<open>try\<close> block of \<^verbatim>\<open>translate\<close> ends with or the content of the decoded reply, with
  the time the call took); the Faster-Whisper model (loading it, and running it on an array,
  which yields raw segments, each with the time elapsed when the generator produced it);
  PortAudio (creating the handle, the loopback devices it lists, opening and stopping a
  stream); and numpy, for the four array expressions of the source that compute in floating
  point: \<^verbatim>\<open>audio.astype(np.float32)\<close> (which leaves a \<^verbatim>\<open>float32\<close> array as it is),
  \<^verbatim>\<open>np.max(np.abs(audio))\<close>, \<^verbatim>\<open>audio / peak\<close> and \<^verbatim>\<open>np.sqrt(np.mean(audio ** 2))\<close>.

  A floating-point scalar is a finite number, positive infinity or not a number (none of
  the expressions yields a negative infinity). The comparisons \<^verbatim>\<open>x < c\<close> and \<^verbatim>\<open>x > c\<close> with a
  constant are those of the number it stands for, and both are false on \<^verbatim>\<open>nan\<close>.
\<close>

datatype np_scalar = Finite real | PosInf | NaN

definition np_less :: "np_scalar \<Rightarrow> real \<Rightarrow> bool" where
  "np_less x c = (case x of Finite r \<Rightarrow> r < c | PosInf \<Rightarrow> False | NaN \<Rightarrow> False)"

definition np_greater :: "np_scalar \<Rightarrow> real \<Rightarrow> bool" where
  "np_greater x c = (case x of Finite r \<Rightarrow> r > c | PosInf \<Rightarrow> True | NaN \<Rightarrow> False)"

datatype requests_error = Timeout | ConnectionError | OtherException

datatype tags_outcome =
  TagsConnectionError
| TagsOtherException
| TagsResponse int "pystr list"

record ChatRequest =
  url :: pystr
  request_timeout :: int
  request_model :: pystr
  request_stream :: bool
  system_content :: pystr
  user_content :: pystr
  temperature :: real
  num_predict :: int
  top_p :: real

record RawSegment =
  seg_text :: pystr
  seg_start :: real
  seg_end :: real
  seg_elapsed :: real

record TranscriptionInfo =
  info_language :: pystr
  info_language_probability :: real

record World =
  lower :: "pystr \<Rightarrow> pystr"
  tags :: tags_outcome
  chat :: "ChatRequest \<Rightarrow> requests_error + pystr"
  chat_elapsed :: "ChatRequest \<Rightarrow> real"
  load_model :: "py_error option"
  run_model :: "audio \<Rightarrow> py_error + (RawSegment list \<times> TranscriptionInfo)"
  pyaudio_init :: "py_error option"
  loopback_devices :: "AudioDevice list"
  open_stream :: "py_error option"
  stop_stream :: "py_error option"
  astype_float32 :: "audio \<Rightarrow> audio"
  np_peak :: "audio \<Rightarrow> np_scalar"
  np_divide :: "audio \<Rightarrow> np_scalar \<Rightarrow> audio"
  np_rms :: "audio \<Rightarrow> np_scalar"

section \<open>Translation engine\<close>

definition default_prompt_ru_to_en :: pystr where
  "default_prompt_ru_to_en =
     str ''You are a professional medical interpreter translating Russian ''
     @ str ''to English. Rules:'' @ [10]
     @ str ''1. Translate accurately, preserving medical meaning.'' @ [10]
     @ str ''2. For Russian drug names, add the US equivalent in parentheses ''
     @ str ''if you know it. Example: '' @ [1069, 1085, 1072, 1087]
     @ str '' (Vasotec/enalapril).'' @ [10]
     @ str ''3. For false friends, translate the CORRECT meaning. ''
     @ str ''Example: '' @ [1072, 1085, 1075, 1080, 1085, 1072]
     @ str '' = tonsillitis, NOT angina pectoris.'' @ [10]
     @ str ''4. Keep the translation natural and professional.'' @ [10]
     @ str ''5. Output ONLY the English translation. No explanations, ''
     @ str ''no notes, no preamble.''"

definition default_prompt_en_to_ru :: pystr where
  "default_prompt_en_to_ru =
     str ''You are a professional medical interpreter translating English ''
     @ str ''to Russian. Rules:'' @ [10]
     @ str ''1. Translate accurately, preserving medical meaning.'' @ [10]
     @ str ''2. For US drug names, add the Russian equivalent in parentheses ''
     @ str ''if you know it. Example: Augmentin (''
     @ [1040, 1084, 1086, 1082, 1089, 1080, 1082, 1083, 1072, 1074] @ str '').'' @ [10]
     @ str ''3. Use standard Russian medical terminology.'' @ [10]
     @ str ''4. Keep the translation natural and professional.'' @ [10]
     @ str ''5. Output ONLY the Russian translation. No explanations, ''
     @ str ''no notes, no preamble.''"

text \<open>
  \<^verbatim>\<open>_verify_connection\<close> ends in one of four messages and never raises: the status check's
  own \<^verbatim>\<open>ConnectionError\<close> is caught by the \<^verbatim>\<open>except Exception\<close> clause below it.
\<close>

datatype verify_message = Connected | ModelNotFound | CannotConnect | CheckFailed

definition verify_connection :: "World \<Rightarrow> OllamaEngine \<Rightarrow> verify_message" where
  "verify_connection w eng =
     (case tags w of
        TagsConnectionError \<Rightarrow> CannotConnect
      | TagsOtherException \<Rightarrow> CheckFailed
      | TagsResponse status_code model_names \<Rightarrow>
          if status_code \<noteq> 200 then CheckFailed
          else if list_ex (\<lambda>name. str_in (ollama_model eng) name \<or> str_in name (ollama_model eng))
                    model_names
          then Connected
          else ModelNotFound)"

text \<open>\<^verbatim>\<open>OllamaEngine()\<close> with its default arguments; the connection check cannot fail it.\<close>

definition OllamaEngine_init :: "World \<Rightarrow> OllamaEngine \<times> verify_message" where
  "OllamaEngine_init w =
     (let eng = \<lparr>base_url = str ''http://localhost:11434'',
                 ollama_model = str ''qwen2.5:7b-instruct-q4_K_M'',
                 timeout = 30,
                 prompt_ru_to_en = default_prompt_ru_to_en,
                 prompt_en_to_ru = default_prompt_en_to_ru\<rparr>
      in (eng, verify_connection w eng))"

definition preambles :: "pystr list" where
  "preambles =
     [str ''Here is the translation:'',
      str ''Translation:'',
      str ''Here'' @ [39] @ str ''s the translation:'',
      [1055, 1077, 1088, 1077, 1074, 1086, 1076, 58],
      [1042, 1086, 1090, 32, 1087, 1077, 1088, 1077, 1074, 1086, 1076, 58]]"

text \<open>\<^verbatim>\<open>_clean_output\<close>; \<^verbatim>\<open>text[1:-1]\<close> is \<open>butlast (tl t)\<close>, also on a single character.\<close>

definition clean_output :: "World \<Rightarrow> pystr \<Rightarrow> pystr" where
  "clean_output w t0 =
     (let t1 = (if startswith t0 [34] \<and> endswith t0 [34] then butlast (tl t0) else t0);
          t2 = (if startswith t1 [39] \<and> endswith t1 [39] then butlast (tl t1) else t1);
          t3 = fold (\<lambda>p t. if startswith (lower w t) (lower w p)
                             then strip (drop (length p) t) else t) preambles t2
      in strip t3)"

text \<open>The payload and call of lines 155 to 177.\<close>

definition chat_request :: "OllamaEngine \<Rightarrow> pystr \<Rightarrow> pystr \<Rightarrow> ChatRequest" where
  "chat_request eng system_prompt t =
     \<lparr>url = base_url eng @ str ''/api/chat'',
      request_timeout = timeout eng,
      request_model = ollama_model eng,
      request_stream = False,
      system_content = system_prompt,
      user_content = t,
      temperature = 1 / 10,
      num_predict = 512,
      top_p = 9 / 10\<rparr>"

text \<open>
  \<^verbatim>\<open>OllamaEngine.translate\<close>. The result is paired with the requests that were sent. Each of
  the three \<^verbatim>\<open>except\<close> clauses returns \<^verbatim>\<open>None\<close>; the last one catches every
  \<^verbatim>\<open>Exception\<close>, so nothing is raised to the caller.
\<close>

definition translate ::
  "World \<Rightarrow> OllamaEngine \<Rightarrow> pystr \<Rightarrow> pystr \<Rightarrow> TranslationResult option \<times> ChatRequest list" where
  "translate w eng text0 source_lang =
     (if text0 = [] \<or> strip text0 = [] then (None, [])
      else
        let t = strip text0;
            direction =
              (if source_lang = str ''ru'' then Some (prompt_ru_to_en eng, str ''en'')
               else if source_lang = str ''en'' then Some (prompt_en_to_ru eng, str ''ru'')
               else None)
        in case direction of
             None \<Rightarrow> (None, [])
           | Some (system_prompt, target_lang) \<Rightarrow>
               (let payload = chat_request eng system_prompt t
                in (case chat w payload of
                      Inl Timeout \<Rightarrow> (None, [payload])
                    | Inl ConnectionError \<Rightarrow> (None, [payload])
                    | Inl OtherException \<Rightarrow> (None, [payload])
                    | Inr content \<Rightarrow>
                        (Some \<lparr>source_text = t,
                               translated_text = clean_output w (strip content),
                               source_language = source_lang,
                               target_language = target_lang,
                               translation_time = chat_elapsed w payload,
                               model = ollama_model eng\<rparr>,
                         [payload]))))"

text \<open>\<^verbatim>\<open>warm_up\<close> translates a greeting and reports; whatever the outcome, it returns.\<close>

definition warm_up :: "World \<Rightarrow> OllamaEngine \<Rightarrow> bool \<times> ChatRequest list" where
  "warm_up w eng =
     (let (result, sent) =
            translate w eng
              [1047, 1076, 1088, 1072, 1074, 1089, 1090, 1074, 1091, 1081, 1090, 1077]
              (str ''ru'')
      in (result \<noteq> None, sent))"

section \<open>Audio producer\<close>

text \<open>
  Lines 193 to 203 of \<^verbatim>\<open>_audio_producer\<close>: \<^verbatim>\<open>put_nowait\<close>; on \<^verbatim>\<open>Full\<close>, \<^verbatim>\<open>get_nowait\<close>
  (drop the oldest), \<^verbatim>\<open>put_nowait\<close> again and count a drop; an \<^verbatim>\<open>Empty\<close> raised in that
  handler is swallowed. Any other exception leaves the thread, which is the \<open>Inl\<close> result.
\<close>

definition audio_producer_put :: "Pipeline \<Rightarrow> audio \<Rightarrow> py_error + Pipeline" where
  "audio_producer_put s a =
     (case put_nowait (audio_queue s) a of
        Inr q \<Rightarrow> Inr (s\<lparr>audio_queue := q\<rparr>)
      | Inl e \<Rightarrow>
          if e \<noteq> Full then Inl e
          else
            (case get_nowait (audio_queue s) of
               Inl e' \<Rightarrow> if e' = Empty then Inr s else Inl e'
             | Inr (oldest, q1) \<Rightarrow>
                 (case put_nowait q1 a of
                    Inl e' \<Rightarrow> if e' = Empty then Inr (s\<lparr>audio_queue := q1\<rparr>) else Inl e'
                  | Inr q2 \<Rightarrow>
                      Inr (s\<lparr>audio_queue := q2,
                             stats := (stats s)\<lparr>chunks_dropped := chunks_dropped (stats s) + 1\<rparr>\<rparr>))))"

text \<open>
  Lines 181 to 203, one pass of the loop body after the sleep: \<open>chunk\<close> is what
  \<^verbatim>\<open>get_audio_chunk(clear=True)\<close> returned, a \<^verbatim>\<open>float32\<close> array. The energy is the value
  that numpy computes for \<^verbatim>\<open>np.sqrt(np.mean(audio ** 2))\<close>, and the test is
  \<^verbatim>\<open>rms < 0.001\<close> on that value. An absent or empty chunk and a silent one are skipped by
  \<^verbatim>\<open>continue\<close>, before anything is counted.
\<close>

definition audio_producer_body :: "World \<Rightarrow> Pipeline \<Rightarrow> audio option \<Rightarrow> py_error + Pipeline" where
  "audio_producer_body w s chunk =
     (case chunk of
        None \<Rightarrow> Inr s
      | Some a \<Rightarrow>
          if length a = 0 then Inr s
          else
            let rms = np_rms w a
            in if np_less rms (1 / 1000) then Inr s
               else audio_producer_put
                      (s\<lparr>stats := (stats s)\<lparr>chunks_captured := chunks_captured (stats s) + 1\<rparr>\<rparr>) a)"

text \<open>
  The loop of \<^verbatim>\<open>_audio_producer\<close>, observed over a finite run: one list entry per wake-up,
  holding what the capture buffer returned then. It leaves when the running flag is down.
\<close>

fun audio_producer :: "World \<Rightarrow> Pipeline \<Rightarrow> audio option list \<Rightarrow> py_error + Pipeline" where
  "audio_producer w s [] = Inr s"
| "audio_producer w s (chunk # rest) =
     (if \<not> running s then Inr s
      else
        (case audio_producer_body w s chunk of
           Inl e \<Rightarrow> Inl e
         | Inr s' \<Rightarrow> audio_producer w s' rest))"

text \<open>A run of pushes with nothing popped in between, each by the block above.\<close>

fun audio_producer_puts :: "Pipeline \<Rightarrow> audio list \<Rightarrow> py_error + Pipeline" where
  "audio_producer_puts s [] = Inr s"
| "audio_producer_puts s (a # rest) =
     (case audio_producer_put s a of
        Inl e \<Rightarrow> Inl e
      | Inr s' \<Rightarrow> audio_producer_puts s' rest)"

section \<open>Recognition engine\<close>

text \<open>\<^verbatim>\<open>WhisperEngine()\<close> with its default arguments: loading the model may raise.\<close>

definition WhisperEngine_init :: "World \<Rightarrow> py_error + WhisperEngine" where
  "WhisperEngine_init w =
     (case load_model w of
        Some e \<Rightarrow> Inl e
      | None \<Rightarrow> Inr \<lparr>model_name = str ''base'', beam_size = 3,
                      device = str ''cpu'', compute_type = str ''int8''\<rparr>)"

text \<open>
  Lines 116 to 123 of \<^verbatim>\<open>transcribe\<close>: the array is converted to \<^verbatim>\<open>float32\<close> if it is not
  one already, and divided by its peak when the peak exceeds one.
\<close>

definition prepare_audio :: "World \<Rightarrow> audio \<Rightarrow> audio" where
  "prepare_audio w a0 =
     (let a1 = astype_float32 w a0;
          peak = np_peak w a1
      in if np_greater peak 1 then np_divide w a1 peak else a1)"

text \<open>
  The collection loop of \<^verbatim>\<open>transcribe\<close> (lines 147 to 161): a raw segment whose stripped
  text is empty is passed over.
\<close>

fun collect_results :: "TranscriptionInfo \<Rightarrow> RawSegment list \<Rightarrow> TranscriptSegment list" where
  "collect_results info [] = []"
| "collect_results info (seg # segs) =
     (let t = strip (seg_text seg)
      in if t = [] then collect_results info segs
         else \<lparr>text = t,
               language = info_language info,
               language_confidence = info_language_probability info,
               start_time = seg_start seg,
               end_time = seg_end seg,
               transcription_time = seg_elapsed seg\<rparr> # collect_results info segs)"

text \<open>
  \<^verbatim>\<open>WhisperEngine.transcribe\<close>. The result is paired with the arrays the model was run on.
  The silence test of lines 126 to 128 is on the energy that numpy computes for the prepared
  array. An exception of the model is not caught here.
\<close>

definition transcribe ::
  "World \<Rightarrow> audio option \<Rightarrow> (py_error + TranscriptSegment list) \<times> audio list" where
  "transcribe w audio0 =
     (case audio0 of
        None \<Rightarrow> (Inr [], [])
      | Some a0 \<Rightarrow>
          if length a0 = 0 then (Inr [], [])
          else
            let a = prepare_audio w a0;
                rms = np_rms w a
            in if np_less rms (1 / 1000) then (Inr [], [])
               else
                 (case run_model w a of
                    Inl e \<Rightarrow> (Inl e, [a])
                  | Inr (segments_gen, info) \<Rightarrow> (Inr (collect_results info segments_gen), [a])))"

section \<open>Recognition worker\<close>

text \<open>
  Lines 223 to 231 of \<^verbatim>\<open>_whisper_worker\<close>, for one segment: the same \<^verbatim>\<open>put_nowait\<close>,
  \<^verbatim>\<open>get_nowait\<close>, \<^verbatim>\<open>put_nowait\<close> sequence as the producer's, on the transcript queue. It
  touches no counter.
\<close>

definition whisper_worker_put :: "Pipeline \<Rightarrow> TranscriptSegment \<Rightarrow> py_error + Pipeline" where
  "whisper_worker_put s seg =
     (case put_nowait (transcript_queue s) seg of
        Inr q \<Rightarrow> Inr (s\<lparr>transcript_queue := q\<rparr>)
      | Inl e \<Rightarrow>
          if e \<noteq> Full then Inl e
          else
            (case get_nowait (transcript_queue s) of
               Inl e' \<Rightarrow> if e' = Empty then Inr s else Inl e'
             | Inr (oldest, q1) \<Rightarrow>
                 (case put_nowait q1 seg of
                    Inl e' \<Rightarrow> if e' = Empty then Inr (s\<lparr>transcript_queue := q1\<rparr>) else Inl e'
                  | Inr q2 \<Rightarrow> Inr (s\<lparr>transcript_queue := q2\<rparr>))))"

fun whisper_worker_puts :: "Pipeline \<Rightarrow> TranscriptSegment list \<Rightarrow> py_error + Pipeline" where
  "whisper_worker_puts s [] = Inr s"
| "whisper_worker_puts s (seg # rest) =
     (case whisper_worker_put s seg of
        Inl e \<Rightarrow> Inl e
      | Inr s' \<Rightarrow> whisper_worker_puts s' rest)"

text \<open>
  One pass of the loop body of \<^verbatim>\<open>_whisper_worker\<close> (lines 211 to 231). The call of
  \<^verbatim>\<open>transcribe\<close> on line 216 stands outside any \<^verbatim>\<open>try\<close>: an exception it raises leaves the
  method, which ends the thread (the \<open>Inl\<close> result).
\<close>

definition whisper_worker_body :: "World \<Rightarrow> Pipeline \<Rightarrow> py_error + Pipeline" where
  "whisper_worker_body w s =
     (case get_timeout (audio_queue s) of
        Inl e \<Rightarrow> if e = Empty then Inr s else Inl e
      | Inr (a, q) \<Rightarrow>
          let s1 = s\<lparr>audio_queue := q\<rparr>
          in (case whisper s1 of
                None \<Rightarrow> Inl AttributeError
              | Some engine \<Rightarrow>
                  (case fst (transcribe w (Some a)) of
                     Inl e \<Rightarrow> Inl e
                   | Inr segments \<Rightarrow>
                       let st = stats s1;
                           st1 = st\<lparr>chunks_transcribed := chunks_transcribed st + 1\<rparr>;
                           st2 = (if segments \<noteq> []
                                  then st1\<lparr>total_whisper_time :=
                                         total_whisper_time st1 + transcription_time (hd segments)\<rparr>
                                  else st1)
                       in whisper_worker_puts (s1\<lparr>stats := st2\<rparr>) segments)))"

text \<open>
  The loop \<^verbatim>\<open>while self._running\<close>, observed for as many passes as the list is long; each
  entry is the outside as it answers during that pass.
\<close>

fun whisper_worker :: "World list \<Rightarrow> Pipeline \<Rightarrow> py_error + Pipeline" where
  "whisper_worker [] s = Inr s"
| "whisper_worker (w # ws) s =
     (if \<not> running s then Inr s
      else
        (case whisper_worker_body w s of
           Inl e \<Rightarrow> Inl e
         | Inr s' \<Rightarrow> whisper_worker ws s'))"

section \<open>Translation worker\<close>

text \<open>
  \<^verbatim>\<open>PipelineItem(transcript=seg, translation=result)\<close>: the time stamp defaults to zero and
  \<^verbatim>\<open>__post_init__\<close> replaces it by the clock reading.
\<close>

definition PipelineItem_init :: "real \<Rightarrow> TranscriptSegment \<Rightarrow> TranslationResult option \<Rightarrow> PipelineItem" where
  "PipelineItem_init now seg result =
     \<lparr>transcript = seg, translation = result, pharma_flags = [], timestamp = now\<rparr>"

text \<open>
  One pass of the loop body of \<^verbatim>\<open>_ollama_worker\<close> (lines 239 to 257), with the clock reading
  of that pass. The second component is the item handed to the sink, if any; the sink is
  taken to return.
\<close>

definition ollama_worker_body ::
  "World \<times> real \<Rightarrow> Pipeline \<Rightarrow> py_error + (Pipeline \<times> PipelineItem option)" where
  "ollama_worker_body wn s =
     (case get_timeout (transcript_queue s) of
        Inl e \<Rightarrow> if e = Empty then Inr (s, None) else Inl e
      | Inr (seg, q) \<Rightarrow>
          let s1 = s\<lparr>transcript_queue := q\<rparr>
          in (case ollama s1 of
                None \<Rightarrow> Inl AttributeError
              | Some engine \<Rightarrow>
                  let result = fst (translate (fst wn) engine (text seg) (language seg));
                      st = stats s1;
                      st1 = st\<lparr>chunks_translated := chunks_translated st + 1\<rparr>;
                      st2 = (case result of
                               Some r \<Rightarrow> st1\<lparr>total_translate_time :=
                                            total_translate_time st1 + translation_time r\<rparr>
                             | None \<Rightarrow> st1);
                      item = PipelineItem_init (snd wn) seg result
                  in Inr (s1\<lparr>stats := st2\<rparr>, Some item)))"

text \<open>
  The loop, observed for as many passes as the list is long; the items reach the sink in the
  order of the returned list.
\<close>

fun ollama_worker ::
  "(World \<times> real) list \<Rightarrow> Pipeline \<Rightarrow> py_error + (Pipeline \<times> PipelineItem list)" where
  "ollama_worker [] s = Inr (s, [])"
| "ollama_worker (wn # wns) s =
     (if \<not> running s then Inr (s, [])
      else
        (case ollama_worker_body wn s of
           Inl e \<Rightarrow> Inl e
         | Inr (s', delivered) \<Rightarrow>
             (case ollama_worker wns s' of
                Inl e \<Rightarrow> Inl e
              | Inr (s'', later) \<Rightarrow>
                  Inr (s'', (case delivered of None \<Rightarrow> [] | Some item \<Rightarrow> [item]) @ later))))"

section \<open>Capture device\<close>

text \<open>\<^verbatim>\<open>AudioCapture(device_index, target_sample_rate)\<close>: creating the PortAudio handle may raise.\<close>

definition AudioCapture_init :: "World \<Rightarrow> int option \<Rightarrow> int \<Rightarrow> py_error + AudioCapture" where
  "AudioCapture_init w dev rate =
     (case pyaudio_init w of
        Some e \<Rightarrow> Inl e
      | None \<Rightarrow> Inr \<lparr>pa = True, stream = False, is_capturing = False,
                      cap_device_index = dev, target_sample_rate = rate,
                      source_sample_rate = None, source_channels = None\<rparr>)"

definition get_default_loopback_device :: "World \<Rightarrow> AudioDevice option" where
  "get_default_loopback_device w =
     (case filter is_default (loopback_devices w) of
        dev # _ \<Rightarrow> Some dev
      | [] \<Rightarrow> (case loopback_devices w of [] \<Rightarrow> None | dev # _ \<Rightarrow> Some dev))"

text \<open>\<^verbatim>\<open>a or b\<close> on optional integers: \<^verbatim>\<open>None\<close> and \<^verbatim>\<open>0\<close> are false.\<close>

definition py_or :: "int option \<Rightarrow> int option \<Rightarrow> int option" where
  "py_or a b = (case a of None \<Rightarrow> b | Some i \<Rightarrow> if i = 0 then b else Some i)"

text \<open>
  \<^verbatim>\<open>AudioCapture.start\<close>: the device is the default loopback device when no index is given
  and the listed device of that index otherwise (\<open>resolve_device\<close>); without one it raises
  \<^verbatim>\<open>RuntimeError\<close>, and opening the stream may raise. A failure is returned with the object
  as the exception leaves it.
\<close>

definition resolve_device :: "World \<Rightarrow> int option \<Rightarrow> AudioDevice option" where
  "resolve_device w idx =
     (case idx of
        None \<Rightarrow> get_default_loopback_device w
      | Some i \<Rightarrow> find (\<lambda>d. index d = i) (loopback_devices w))"

definition AudioCapture_start ::
  "World \<Rightarrow> AudioCapture \<Rightarrow> int option \<Rightarrow> (py_error \<times> AudioCapture) + AudioCapture" where
  "AudioCapture_start w c dev =
     (if is_capturing c then Inr c
      else
        let idx = py_or dev (cap_device_index c);
            found = resolve_device w idx
        in (case found of
              None \<Rightarrow> Inl (RuntimeError, c)
            | Some dv \<Rightarrow>
                let c1 = c\<lparr>source_sample_rate := Some (sample_rate dv),
                           source_channels := Some (channels dv)\<rparr>
                in (case open_stream w of
                      Some e \<Rightarrow> Inl (e, c1)
                    | None \<Rightarrow> Inr (c1\<lparr>stream := True, is_capturing := True\<rparr>))))"

definition AudioCapture_stop ::
  "World \<Rightarrow> AudioCapture \<Rightarrow> (py_error \<times> AudioCapture) + AudioCapture" where
  "AudioCapture_stop w c =
     (if \<not> is_capturing c then Inr c
      else
        let c1 = c\<lparr>is_capturing := False\<rparr>
        in if stream c1
           then (case stop_stream w of
                   Some e \<Rightarrow> Inl (e, c1)
                 | None \<Rightarrow> Inr (c1\<lparr>stream := False\<rparr>))
           else Inr c1)"

definition AudioCapture_close ::
  "World \<Rightarrow> AudioCapture \<Rightarrow> (py_error \<times> AudioCapture) + AudioCapture" where
  "AudioCapture_close w c =
     (case AudioCapture_stop w c of
        Inl failure \<Rightarrow> Inl failure
      | Inr c1 \<Rightarrow> Inr (if pa c1 then c1\<lparr>pa := False\<rparr> else c1))"

section \<open>Pipeline coordinator\<close>

text \<open>
  \<^verbatim>\<open>Pipeline.start\<close>. \<open>Inl (e, s')\<close> says that \<open>e\<close> reached the caller and left the object
  as \<open>s'\<close>. The engines are built in the order of the source; the warm-up's outcome is
  only printed.
\<close>

definition start :: "World \<Rightarrow> Pipeline \<Rightarrow> (py_error \<times> Pipeline) + Pipeline" where
  "start w s =
     (if running s then Inr s
      else
        (case WhisperEngine_init w of
           Inl e \<Rightarrow> Inl (e, s)
         | Inr wh \<Rightarrow>
             let s1 = s\<lparr>whisper := Some wh\<rparr>;
                 ol = fst (OllamaEngine_init w);
                 s2 = s1\<lparr>ollama := Some ol\<rparr>
             in (case AudioCapture_init w (device_index s2) 16000 of
                   Inl e \<Rightarrow> Inl (e, s2)
                 | Inr c \<Rightarrow>
                     let s3 = s2\<lparr>capture := Some c\<rparr>;
                         warmed = warm_up w ol
                     in (case AudioCapture_start w c None of
                           Inl (e, c') \<Rightarrow> Inl (e, s3\<lparr>capture := Some c'\<rparr>)
                         | Inr c' \<Rightarrow>
                             Inr (s3\<lparr>capture := Some c', running := True,
                                     threads := [AudioProducer, WhisperWorker, OllamaWorker]\<rparr>)))))"

text \<open>\<^verbatim>\<open>_drain_queue\<close>: \<^verbatim>\<open>get_nowait\<close> until \<^verbatim>\<open>Empty\<close>.\<close>

function drain_queue :: "'a Queue \<Rightarrow> 'a Queue" where
  "drain_queue q =
     (case get_nowait q of
        Inl e \<Rightarrow> q
      | Inr (x, q') \<Rightarrow> drain_queue q')"
  by pat_completeness auto
termination
  by (relation "measure (\<lambda>q. length (items q))")
     (auto simp: get_nowait_def split: list.splits)

text \<open>
  \<^verbatim>\<open>Pipeline.stop\<close>: the joins are bounded waits, after which the thread list is emptied; the
  statistics are printed from the counters, which stay as they are.
\<close>

definition stop_finish :: "Pipeline \<Rightarrow> Pipeline" where
  "stop_finish s =
     s\<lparr>audio_queue := drain_queue (audio_queue s),
       transcript_queue := drain_queue (transcript_queue s),
       threads := []\<rparr>"

definition stop :: "World \<Rightarrow> Pipeline \<Rightarrow> (py_error \<times> Pipeline) + Pipeline" where
  "stop w s =
     (if \<not> running s then Inr s
      else
        let s1 = s\<lparr>running := False\<rparr>
        in (case capture s1 of
              None \<Rightarrow> Inr (stop_finish s1)
            | Some c \<Rightarrow>
                (case AudioCapture_stop w c of
                   Inl (e, c') \<Rightarrow> Inl (e, s1\<lparr>capture := Some c'\<rparr>)
                 | Inr c' \<Rightarrow>
                     (case AudioCapture_close w c' of
                        Inl (e, c'') \<Rightarrow> Inl (e, s1\<lparr>capture := Some c''\<rparr>)
                      | Inr c'' \<Rightarrow> Inr (stop_finish (s1\<lparr>capture := Some c''\<rparr>))))))"

definition is_running :: "Pipeline \<Rightarrow> bool" where
  "is_running s = running s"

section \<open>Example inputs\<close>

text \<open>
  Concrete collaborators for the evaluations below: a service that answers every chat
  request but the one for the text \<open>stop\<close>, on which it times out; a model that turns any
  array into one English segment; one default loopback device; array expressions answered
  in exact arithmetic, which is what \<^verbatim>\<open>float32\<close> arithmetic gives on the chunks whose
  energy is taken below (their samples are powers of two, and so are their squares, means
  and roots). Two
  variants: the translation service is down, and the model raises.
\<close>

definition exact_max :: "real list \<Rightarrow> real" where
  "exact_max xs = fold max (tl xs) (hd xs)"

definition exact_mean :: "real list \<Rightarrow> real" where
  "exact_mean xs = sum_list xs / real (length xs)"

definition exact_rms :: "audio \<Rightarrow> real" where
  "exact_rms a = sqrt (exact_mean (map (\<lambda>x. x ^ 2) a))"

definition ascii_lower :: "pystr \<Rightarrow> pystr" where
  "ascii_lower t = map (\<lambda>c. if 65 \<le> c \<and> c \<le> 90 then c + 32 else c) t"

definition example_world :: World where
  "example_world =
     \<lparr>lower = ascii_lower,
      tags = TagsResponse 200 [str ''qwen2.5:7b-instruct-q4_K_M''],
      chat = (\<lambda>r. if user_content r = str ''stop'' then Inl Timeout else Inr (str ''Hello'')),
      chat_elapsed = (\<lambda>r. 1),
      load_model = None,
      run_model = (\<lambda>a. Inr ([\<lparr>seg_text = str '' hi '', seg_start = 0, seg_end = 1,
                                  seg_elapsed = 1 / 2\<rparr>],
                               \<lparr>info_language = str ''en'', info_language_probability = 1\<rparr>)),
      pyaudio_init = None,
      loopback_devices = [\<lparr>index = 3, name = str ''Speakers'', channels = 2,
                            sample_rate = 48000, is_loopback = True, is_default = True\<rparr>],
      open_stream = None,
      stop_stream = None,
      astype_float32 = (\<lambda>a. a),
      np_peak = (\<lambda>a. Finite (exact_max (map abs a))),
      np_divide = (\<lambda>a p. case p of Finite r \<Rightarrow> map (\<lambda>x. x / r) a
                               | PosInf \<Rightarrow> map (\<lambda>x. 0) a
                               | NaN \<Rightarrow> a),
      np_rms = (\<lambda>a. Finite (exact_rms a))\<rparr>"

definition world_ollama_down :: World where
  "world_ollama_down =
     example_world\<lparr>tags := TagsConnectionError, chat := (\<lambda>r. Inl ConnectionError)\<rparr>"

definition world_model_raises :: World where
  "world_model_raises = example_world\<lparr>run_model := (\<lambda>a. Inl RuntimeError)\<rparr>"

definition example_segment :: "pystr \<Rightarrow> pystr \<Rightarrow> TranscriptSegment" where
  "example_segment t lang =
     \<lparr>text = t, language = lang, language_confidence = 1,
      start_time = 0, end_time = 1, transcription_time = 1 / 2\<rparr>"

text \<open>
  A started pipeline whose audio queue holds two loud chunks, and one whose transcript
  queue is at its capacity of twenty.
\<close>

definition two_chunk_pipeline :: Pipeline where
  "two_chunk_pipeline =
     (Pipeline_init 4 None)
       \<lparr>running := True,
        threads := [AudioProducer, WhisperWorker, OllamaWorker],
        whisper := Some \<lparr>model_name = str ''base'', beam_size = 3,
                         device = str ''cpu'', compute_type = str ''int8''\<rparr>,
        audio_queue := \<lparr>maxsize = 20, items = [[1 / 2], [1 / 4]]\<rparr>\<rparr>"

definition full_transcript_pipeline :: Pipeline where
  "full_transcript_pipeline =
     (Pipeline_init 4 None)
       \<lparr>running := True,
        threads := [AudioProducer, WhisperWorker, OllamaWorker],
        transcript_queue :=
          \<lparr>maxsize = 20, items = replicate 20 (example_segment (str ''old'') (str ''en''))\<rparr>\<rparr>"

text \<open>
  A started pipeline whose transcript queue holds a Russian segment, a segment tagged
  \<open>fr\<close>, and the English segment \<open>stop\<close>, on which the example service times out.
\<close>

definition three_segment_pipeline :: Pipeline where
  "three_segment_pipeline =
     (Pipeline_init 4 None)
       \<lparr>running := True,
        threads := [AudioProducer, WhisperWorker, OllamaWorker],
        ollama := Some (fst (OllamaEngine_init example_world)),
        transcript_queue :=
          \<lparr>maxsize = 20,
           items = [example_segment [1055, 1088, 1080, 1074, 1077, 1090] (str ''ru''),
                    example_segment (str ''bonjour'') (str ''fr''),
                    example_segment (str ''stop'') (str ''en'')]\<rparr>\<rparr>"

section \<open>Properties of the audio producer\<close>

lemma exact_rms_less_iff:
  assumes "0 < t"
  shows "exact_rms a < t \<longleftrightarrow> exact_mean (map (\<lambda>x. x ^ 2) a) < t ^ 2"
proof -
  have "sqrt (t ^ 2) = t"
    using assms by simp
  then have "exact_rms a < t \<longleftrightarrow> sqrt (exact_mean (map (\<lambda>x. x ^ 2) a)) < sqrt (t ^ 2)"
    by (simp add: exact_rms_def)
  then show ?thesis
    by (simp only: real_sqrt_less_iff)
qed

lemma example_world_np_rms: "np_rms example_world a = Finite (exact_rms a)"
  by (simp add: example_world_def)

lemma quiet_example: "np_less (np_rms example_world [1 / 2048, - 1 / 2048]) (1 / 1000)"
  unfolding example_world_np_rms np_less_def np_scalar.case
  by (subst exact_rms_less_iff) (simp_all add: exact_mean_def power2_eq_square)

lemma audio_producer_put_step:
  assumes "0 < maxsize (audio_queue s)"
    and "int (length (items (audio_queue s))) \<le> maxsize (audio_queue s)"
  shows "audio_producer_put s a =
     Inr (s\<lparr>audio_queue := (audio_queue s)\<lparr>items :=
                drop (Suc (length (items (audio_queue s))) - nat (maxsize (audio_queue s)))
                  (items (audio_queue s) @ [a])\<rparr>,
            stats := (stats s)\<lparr>chunks_dropped := chunks_dropped (stats s) +
                max 0 (int (length (items (audio_queue s))) + 1 - maxsize (audio_queue s))\<rparr>\<rparr>)"
proof (cases "int (length (items (audio_queue s))) < maxsize (audio_queue s)")
  case True
  then have "Suc (length (items (audio_queue s))) - nat (maxsize (audio_queue s)) = 0"
    by linarith
  with True show ?thesis
    by (simp add: audio_producer_put_def put_nowait_def qsize_def)
next
  case False
  with assms have full: "int (length (items (audio_queue s))) = maxsize (audio_queue s)"
    by simp
  with assms(1) obtain x rest where xs: "items (audio_queue s) = x # rest"
    by (cases "items (audio_queue s)") auto
  from full have "Suc (length (items (audio_queue s))) - nat (maxsize (audio_queue s)) = 1"
    by linarith
  with full xs assms(1) show ?thesis
    by (simp add: audio_producer_put_def put_nowait_def get_nowait_def qsize_def)
qed

lemma audio_producer_puts_general:
  assumes "0 < maxsize (audio_queue s)"
    and "int (length (items (audio_queue s))) \<le> maxsize (audio_queue s)"
  shows "audio_producer_puts s xs =
     Inr (s\<lparr>audio_queue := (audio_queue s)\<lparr>items :=
                drop (length (items (audio_queue s)) + length xs - nat (maxsize (audio_queue s)))
                  (items (audio_queue s) @ xs)\<rparr>,
            stats := (stats s)\<lparr>chunks_dropped := chunks_dropped (stats s) +
                max 0 (int (length (items (audio_queue s))) + int (length xs)
                         - maxsize (audio_queue s))\<rparr>\<rparr>)"
  using assms
proof (induction xs arbitrary: s)
  case Nil
  then show ?case by simp
next
  case (Cons a xs)
  let ?q = "audio_queue s"
  let ?c = "nat (maxsize ?q)"
  let ?k = "Suc (length (items ?q)) - ?c"
  define s1 where "s1 = s\<lparr>audio_queue := ?q\<lparr>items := drop ?k (items ?q @ [a])\<rparr>,
            stats := (stats s)\<lparr>chunks_dropped := chunks_dropped (stats s) +
                max 0 (int (length (items ?q)) + 1 - maxsize ?q)\<rparr>\<rparr>"
  have step: "audio_producer_put s a = Inr s1"
    unfolding s1_def using Cons.prems by (rule audio_producer_put_step)
  have m1: "maxsize (audio_queue s1) = maxsize ?q"
    by (simp add: s1_def)
  have i1: "items (audio_queue s1) = drop ?k (items ?q @ [a])"
    by (simp add: s1_def)
  have len1: "int (length (items (audio_queue s1))) \<le> maxsize (audio_queue s1)"
    using Cons.prems by (simp add: i1 m1)
  have pos1: "0 < maxsize (audio_queue s1)"
    using Cons.prems by (simp add: m1)
  have l1: "length (items (audio_queue s1)) = Suc (length (items ?q)) - ?k"
    by (simp add: i1)
  have dr: "drop (length (items (audio_queue s1)) + length xs - ?c) (items (audio_queue s1) @ xs)
      = drop (length (items ?q) + length (a # xs) - ?c) (items ?q @ a # xs)"
  proof (cases "Suc (length (items ?q)) \<le> ?c")
    case True
    then have "?k = 0" by simp
    then show ?thesis by (simp add: i1)
  next
    case False
    then have k: "?k \<le> length (items ?q @ [a])" by simp
    from False have lenc: "length (items (audio_queue s1)) = ?c"
      by (simp add: l1)
    have e1: "length (items (audio_queue s1)) + length xs - ?c = length xs"
      by (simp only: lenc add_diff_cancel_left')
    have e2: "drop ?k (items ?q @ [a]) @ xs = drop ?k ((items ?q @ [a]) @ xs)"
      using k by (simp del: append_assoc)
    have e3: "length xs + ?k = length (items ?q) + length (a # xs) - ?c"
      using False by simp
    have "drop (length (items (audio_queue s1)) + length xs - ?c) (items (audio_queue s1) @ xs)
       = drop (length xs) (drop ?k (items ?q @ [a]) @ xs)"
      unfolding e1 by (simp only: i1)
    also have "\<dots> = drop (length xs) (drop ?k ((items ?q @ [a]) @ xs))"
      by (simp only: e2)
    also have "\<dots> = drop (length xs + ?k) (items ?q @ a # xs)"
      by (simp only: drop_drop append_assoc append_Cons append_Nil)
    also have "\<dots> = drop (length (items ?q) + length (a # xs) - ?c) (items ?q @ a # xs)"
      by (simp only: e3)
    finally show ?thesis .
  qed
  have cnt: "chunks_dropped (stats s1) + max 0 (int (length (items (audio_queue s1))) + int (length xs) - maxsize ?q)
     = chunks_dropped (stats s) + max 0 (int (length (items ?q)) + int (length (a # xs)) - maxsize ?q)"
    using Cons.prems by (simp add: s1_def)
  have "audio_producer_puts s (a # xs) = audio_producer_puts s1 xs"
    by (simp add: step)
  also have "\<dots> = Inr (s1\<lparr>audio_queue := (audio_queue s1)\<lparr>items :=
                drop (length (items (audio_queue s1)) + length xs - nat (maxsize (audio_queue s1)))
                  (items (audio_queue s1) @ xs)\<rparr>,
            stats := (stats s1)\<lparr>chunks_dropped := chunks_dropped (stats s1) +
                max 0 (int (length (items (audio_queue s1))) + int (length xs)
                         - maxsize (audio_queue s1))\<rparr>\<rparr>)"
    using pos1 len1 by (rule Cons.IH)
  also have "\<dots> = Inr (s\<lparr>audio_queue := ?q\<lparr>items :=
                drop (length (items ?q) + length (a # xs) - ?c) (items ?q @ a # xs)\<rparr>,
            stats := (stats s)\<lparr>chunks_dropped := chunks_dropped (stats s) +
                max 0 (int (length (items ?q)) + int (length (a # xs)) - maxsize ?q)\<rparr>\<rparr>)"
    unfolding m1 dr cnt by (simp add: s1_def)
  finally show ?case .
qed


text \<open>
  Claim C1. Starting from an empty audio queue of capacity \<open>C > 0\<close>, any run of \<open>N\<close> pushes
  by the producer's sequence (\<^verbatim>\<open>put_nowait\<close>, and on \<^verbatim>\<open>Full\<close> \<^verbatim>\<open>get_nowait\<close> then
  \<^verbatim>\<open>put_nowait\<close>) with no pop in between returns normally, leaves exactly the last
  \<open>min N C\<close> pushed chunks in the queue in the order they were pushed, raises the drop
  counter by \<open>max 0 (N - C)\<close>, and the newest chunk is always the last entry of the queue.
\<close>

theorem audio_producer_puts_drop_oldest:
  assumes "0 < maxsize (audio_queue s)"
    and "items (audio_queue s) = []"
  shows "\<exists>s'. audio_producer_puts s xs = Inr s'
      \<and> items (audio_queue s') = drop (length xs - nat (maxsize (audio_queue s))) xs
      \<and> qsize (audio_queue s') = min (length xs) (nat (maxsize (audio_queue s)))
      \<and> chunks_dropped (stats s') =
          chunks_dropped (stats s) + max 0 (int (length xs) - maxsize (audio_queue s))
      \<and> (xs \<noteq> [] \<longrightarrow> last (items (audio_queue s')) = last xs)"
proof -
  let ?c = "nat (maxsize (audio_queue s))"
  have len: "int (length (items (audio_queue s))) \<le> maxsize (audio_queue s)"
    using assms by simp
  note run = audio_producer_puts_general [OF assms(1) len, of xs]
  have pos: "0 < ?c"
    using assms(1) by simp
  have newest: "last (drop (length xs - ?c) xs) = last xs" if "xs \<noteq> []"
  proof -
    from that pos have "length xs - ?c < length xs"
      by (cases xs) auto
    then show ?thesis
      by (rule last_drop)
  qed
  show ?thesis
    unfolding run using assms(2) newest by (simp add: qsize_def min_def)
qed

theorem audio_producer_puts_drop_oldest_witness:
  "0 < maxsize (audio_queue ((Pipeline_init 4 None)\<lparr>audio_queue := Queue_init 2\<rparr>))
   \<and> items (audio_queue ((Pipeline_init 4 None)\<lparr>audio_queue := Queue_init 2\<rparr>)) = []
   \<and> (\<exists>s'. audio_producer_puts ((Pipeline_init 4 None)\<lparr>audio_queue := Queue_init 2\<rparr>)
               [[1], [2], [3]] = Inr s'
          \<and> items (audio_queue s') = [[2], [3]]
          \<and> qsize (audio_queue s') = 2
          \<and> chunks_dropped (stats s') = 1
          \<and> last (items (audio_queue s')) = [3])"
proof -
  let ?s0 = "(Pipeline_init 4 None)\<lparr>audio_queue := Queue_init 2\<rparr>"
  have cap: "0 < maxsize (audio_queue ?s0)"
    by (simp add: Queue_init_def)
  have emp: "items (audio_queue ?s0) = []"
    by (simp add: Queue_init_def)
  have m: "maxsize (audio_queue ?s0) = 2"
    by (simp add: Queue_init_def)
  have d: "chunks_dropped (stats ?s0) = 0"
    by (simp add: Pipeline_init_def Stats_init_def)
  from audio_producer_puts_drop_oldest [OF cap emp, of "[[1], [2], [3]]"]
  obtain s' where "audio_producer_puts ?s0 [[1], [2], [3]] = Inr s'"
    and "items (audio_queue s') = drop (length [[1::real], [2], [3]] - nat 2) [[1], [2], [3]]"
    and "qsize (audio_queue s') = min (length [[1::real], [2], [3]]) (nat 2)"
    and "chunks_dropped (stats s') = 0 + max 0 (int (length [[1::real], [2], [3]]) - 2)"
    and "last (items (audio_queue s')) = last [[1], [2], [3]]"
    unfolding m d by blast
  then have "audio_producer_puts ?s0 [[1], [2], [3]] = Inr s'
      \<and> items (audio_queue s') = [[2], [3]]
      \<and> qsize (audio_queue s') = 2
      \<and> chunks_dropped (stats s') = 1
      \<and> last (items (audio_queue s')) = [3]"
    by simp
  with cap emp show ?thesis
    by blast
qed

text \<open>
  Claim C7. A chunk whose root-mean-square energy, as the producer computes it, is below
  the threshold \<open>0.001\<close> is discarded: the pass returns the pipeline state as it was, so
  the audio queue and the captured counter (and everything else) are unchanged.
\<close>

theorem silent_chunk_discarded:
  assumes "np_less (np_rms w a) (1 / 1000)"
  shows "audio_producer_body w s (Some a) = Inr s \<and> audio_producer w s [Some a] = Inr s"
  using assms by (simp add: audio_producer_body_def)

theorem silent_chunk_discarded_witness:
  "np_less (np_rms example_world [1 / 2048, - 1 / 2048]) (1 / 1000)
   \<and> audio_producer_body example_world (Pipeline_init 4 None) (Some [1 / 2048, - 1 / 2048])
       = Inr (Pipeline_init 4 None)
   \<and> audio_producer example_world (Pipeline_init 4 None) [Some [1 / 2048, - 1 / 2048]]
       = Inr (Pipeline_init 4 None)"
  using silent_chunk_discarded [OF quiet_example, of "Pipeline_init 4 None"] quiet_example
  by (simp only: simp_thms)

section \<open>Properties of the statistics report\<close>

text \<open>
  Claim C8, amended. The coverage that the pipeline computes and prints is a percentage,
  \<open>transcribed / captured * 100\<close>: for counters with \<open>0 \<le> transcribed \<le> captured\<close> it lies
  within \<open>[0, 100]\<close>, and it is \<open>0\<close> when the captured count is \<open>0\<close>.
\<close>

theorem coverage_is_percentage:
  assumes "0 \<le> chunks_transcribed s"
    and "chunks_transcribed s \<le> chunks_captured s"
  shows "0 \<le> coverage s \<and> coverage s \<le> 100 \<and> (chunks_captured s = 0 \<longrightarrow> coverage s = 0)"
proof (cases "0 < chunks_captured s")
  case True
  let ?t = "real_of_int (chunks_transcribed s)"
  let ?c = "real_of_int (chunks_captured s)"
  have c: "0 < ?c" using True by simp
  have t: "0 \<le> ?t" "?t \<le> ?c" using assms by simp_all
  have lo: "0 \<le> ?t / ?c * 100"
    using c t by simp
  have "?t / ?c \<le> 1"
    using c t by simp
  then have "?t / ?c * 100 \<le> 1 * 100"
    by (rule mult_right_mono) simp
  then have hi: "?t / ?c * 100 \<le> 100"
    by (simp only: mult_1)
  have "coverage s = ?t / ?c * 100"
    using True by (simp only: coverage_def if_True)
  with lo hi True show ?thesis
    by (simp only:) simp
next
  case False
  then show ?thesis by (simp add: coverage_def)
qed

theorem coverage_is_percentage_witness:
  "0 \<le> chunks_transcribed (Stats_init\<lparr>chunks_captured := 4, chunks_transcribed := 3\<rparr>)
   \<and> chunks_transcribed (Stats_init\<lparr>chunks_captured := 4, chunks_transcribed := 3\<rparr>)
       \<le> chunks_captured (Stats_init\<lparr>chunks_captured := 4, chunks_transcribed := 3\<rparr>)
   \<and> coverage (Stats_init\<lparr>chunks_captured := 4, chunks_transcribed := 3\<rparr>) = 75
   \<and> 0 \<le> coverage (Stats_init\<lparr>chunks_captured := 4, chunks_transcribed := 3\<rparr>)
   \<and> coverage (Stats_init\<lparr>chunks_captured := 4, chunks_transcribed := 3\<rparr>) \<le> 100"
  using coverage_is_percentage [of "Stats_init\<lparr>chunks_captured := 4, chunks_transcribed := 3\<rparr>"]
  by (simp add: Stats_init_def coverage_def)

text \<open>
  As stated, with the bound \<open>[0, 1]\<close> and for all counter values, the claim fails: one chunk
  captured and transcribed gives \<open>100\<close>, and nothing clamps the value when the transcribed
  count exceeds the captured one.
\<close>

theorem coverage_ratio_counterexample:
  "coverage (Stats_init\<lparr>chunks_captured := 1, chunks_transcribed := 1\<rparr>) = 100
   \<and> \<not> coverage (Stats_init\<lparr>chunks_captured := 1, chunks_transcribed := 1\<rparr>) \<le> 1
   \<and> coverage (Stats_init\<lparr>chunks_captured := 1, chunks_transcribed := 2\<rparr>) = 200"
  by (simp add: Stats_init_def coverage_def)

section \<open>Properties of the coordinator\<close>

text \<open>
  Claim C6. \<^verbatim>\<open>start()\<close> on a pipeline whose running flag is set, and \<^verbatim>\<open>stop()\<close> on one
  whose flag is clear, return normally and leave the whole state as it was: thread list,
  queues, engines, counters and the flag itself.
\<close>

theorem start_stop_noop:
  "(running s \<longrightarrow> start w s = Inr s) \<and> (\<not> running s \<longrightarrow> stop w s = Inr s)"
  by (simp add: start_def stop_def)

theorem start_stop_noop_witness:
  "running ((Pipeline_init 4 None)\<lparr>running := True,
              threads := [AudioProducer, WhisperWorker, OllamaWorker]\<rparr>)
   \<and> start example_world ((Pipeline_init 4 None)\<lparr>running := True,
              threads := [AudioProducer, WhisperWorker, OllamaWorker]\<rparr>)
       = Inr ((Pipeline_init 4 None)\<lparr>running := True,
              threads := [AudioProducer, WhisperWorker, OllamaWorker]\<rparr>)
   \<and> \<not> running (Pipeline_init 4 None)
   \<and> stop example_world (Pipeline_init 4 None) = Inr (Pipeline_init 4 None)"
  using start_stop_noop [of "(Pipeline_init 4 None)\<lparr>running := True,
              threads := [AudioProducer, WhisperWorker, OllamaWorker]\<rparr>" example_world]
    start_stop_noop [of "Pipeline_init 4 None" example_world]
  by (simp add: Pipeline_init_def)

section \<open>Properties of the engines\<close>

lemma dropWhile_all: "list_all P xs \<Longrightarrow> dropWhile P xs = []"
  by (induction xs) auto

lemma strip_blank: "list_all isspace t \<Longrightarrow> strip t = []"
  by (simp add: strip_def dropWhile_all)

lemma translate_blank: "list_all isspace t \<Longrightarrow> translate w eng t lang = (None, [])"
  by (simp add: translate_def strip_blank)

lemma translate_Some:
  assumes "translate w eng t lang = (Some r, sent)"
  shows "source_text r = strip t \<and> source_language r = lang
     \<and> (lang = str ''ru'' \<and> target_language r = str ''en''
          \<or> lang = str ''en'' \<and> target_language r = str ''ru'')"
  using assms
  by (auto simp: translate_def Let_def
      split: if_splits sum.splits requests_error.splits)

text \<open>
  Claim C9. For a text that is empty or only white space, \<^verbatim>\<open>translate\<close> returns
  \<^verbatim>\<open>None\<close> whatever the language tag and sends no request. Whenever it returns a result,
  its source text is the stripped input, its source language is the given tag, and its
  target language is the other one of the two supported tags.
\<close>

theorem translate_blank_and_success:
  "(list_all isspace t \<longrightarrow> translate w eng t lang = (None, []))
   \<and> (\<forall>r sent. translate w eng t lang = (Some r, sent) \<longrightarrow>
         source_text r = strip t \<and> source_language r = lang
         \<and> (lang = str ''ru'' \<and> target_language r = str ''en''
              \<or> lang = str ''en'' \<and> target_language r = str ''ru''))"
  using translate_blank translate_Some by blast

lemma isspace_32: "isspace 32"
  by (simp add: isspace_def)

lemma strip_example: "strip (32 # 9 # str ''hi'' @ [10]) = str ''hi''"
  by (simp add: strip_def isspace_def str_def)

lemma translate_example:
  "translate example_world (fst (OllamaEngine_init example_world))
       (32 # 9 # str ''hi'' @ [10]) (str ''en'')
   = (Some \<lparr>source_text = str ''hi'',
            translated_text = clean_output example_world (strip (str ''Hello'')),
            source_language = str ''en'', target_language = str ''ru'',
            translation_time = 1, model = str ''qwen2.5:7b-instruct-q4_K_M''\<rparr>,
      [chat_request (fst (OllamaEngine_init example_world)) default_prompt_en_to_ru (str ''hi'')])"
proof -
  have ne: "32 # 9 # str ''hi'' @ [10] \<noteq> []" "str ''hi'' \<noteq> []"
      "str ''en'' \<noteq> str ''ru''" "str ''hi'' \<noteq> str ''stop''"
    by (simp_all add: str_def)
  have c: "chat example_world r = (if user_content r = str ''stop'' then Inl Timeout else Inr (str ''Hello''))"
      "chat_elapsed example_world r = 1" for r
    by (simp_all add: example_world_def)
  show ?thesis
    by (simp add: translate_def strip_example ne c
        OllamaEngine_init_def chat_request_def Let_def del: append.simps)
qed

theorem translate_blank_and_success_witness:
  "list_all isspace [32, 9, 10]
   \<and> translate example_world (fst (OllamaEngine_init example_world)) [32, 9, 10] (str ''ru'')
       = (None, [])
   \<and> (\<exists>r sent. translate example_world (fst (OllamaEngine_init example_world))
                   (32 # 9 # str ''hi'' @ [10]) (str ''en'') = (Some r, sent)
          \<and> source_text r = str ''hi'' \<and> source_language r = str ''en''
          \<and> target_language r = str ''ru'')"
proof -
  have blank: "list_all isspace [32, 9, 10]"
    by (simp add: isspace_def)
  have ne: "str ''en'' \<noteq> str ''ru''"
    by (simp add: str_def)
  from translate_blank_and_success
    [of "[32, 9, 10]" example_world "fst (OllamaEngine_init example_world)" "str ''ru''"] blank
  have one: "translate example_world (fst (OllamaEngine_init example_world)) [32, 9, 10]
      (str ''ru'') = (None, [])"
    by blast
  from translate_blank_and_success
    [of "32 # 9 # str ''hi'' @ [10]" example_world "fst (OllamaEngine_init example_world)"
      "str ''en''"] translate_example
  have two: "\<exists>r sent. translate example_world (fst (OllamaEngine_init example_world))
                   (32 # 9 # str ''hi'' @ [10]) (str ''en'') = (Some r, sent)
          \<and> source_text r = str ''hi'' \<and> source_language r = str ''en''
          \<and> target_language r = str ''ru''"
    using ne strip_example by (simp del: append.simps)
  from blank one two show ?thesis
    by blast
qed

section \<open>Properties of the recognition engine\<close>




lemma prepare_example:
  "prepare_audio example_world [1 / 2048, - 1 / 2048] = [1 / 2048, - 1 / 2048]"
  "prepare_audio example_world [1 / 2] = [1 / 2]"
  by (simp_all add: prepare_audio_def example_world_def exact_max_def np_greater_def)

lemma loud_example: "\<not> np_less (np_rms example_world [1 / 2]) (1 / 1000)"
  unfolding example_world_np_rms np_less_def np_scalar.case
  by (subst exact_rms_less_iff) (simp_all add: exact_mean_def power2_eq_square)


section \<open>Properties of the recognition worker\<close>

lemma whisper_worker_put_full:
  assumes "0 < maxsize (transcript_queue s)"
    and "int (length (items (transcript_queue s))) = maxsize (transcript_queue s)"
  shows "whisper_worker_put s seg =
     Inr (s\<lparr>transcript_queue := (transcript_queue s)\<lparr>items :=
            tl (items (transcript_queue s)) @ [seg]\<rparr>\<rparr>)"
proof -
  from assms obtain x rest where xs: "items (transcript_queue s) = x # rest"
    by (cases "items (transcript_queue s)") auto
  with assms show ?thesis
    by (simp add: whisper_worker_put_def put_nowait_def get_nowait_def qsize_def)
qed

lemma replicate_20: "replicate 20 x = x # replicate 19 x"
  by (simp add: numeral_eq_Suc)

text \<open>
  Claim C4 asks that an eviction from the transcript queue be counted in the dropped
  counter, as the producer does for the audio queue. The recognition worker's push evicts
  the oldest segment of a full queue and leaves the counter where it was: here at zero.
\<close>

theorem whisper_worker_put_eviction_uncounted:
  "whisper_worker_put full_transcript_pipeline (example_segment (str ''new'') (str ''en''))
     = Inr (full_transcript_pipeline\<lparr>transcript_queue :=
              \<lparr>maxsize = 20,
               items = replicate 19 (example_segment (str ''old'') (str ''en''))
                       @ [example_segment (str ''new'') (str ''en'')]\<rparr>\<rparr>)
   \<and> chunks_dropped (stats (full_transcript_pipeline\<lparr>transcript_queue :=
              \<lparr>maxsize = 20,
               items = replicate 19 (example_segment (str ''old'') (str ''en''))
                       @ [example_segment (str ''new'') (str ''en'')]\<rparr>\<rparr>)) = 0"
proof -
  have cap: "0 < maxsize (transcript_queue full_transcript_pipeline)"
    by (simp add: full_transcript_pipeline_def)
  have len: "int (length (items (transcript_queue full_transcript_pipeline)))
      = maxsize (transcript_queue full_transcript_pipeline)"
    by (simp add: full_transcript_pipeline_def)
  have "whisper_worker_put full_transcript_pipeline (example_segment (str ''new'') (str ''en''))
     = Inr (full_transcript_pipeline\<lparr>transcript_queue :=
          (transcript_queue full_transcript_pipeline)\<lparr>items :=
            tl (items (transcript_queue full_transcript_pipeline))
            @ [example_segment (str ''new'') (str ''en'')]\<rparr>\<rparr>)"
    using cap len by (rule whisper_worker_put_full)
  moreover have "tl (items (transcript_queue full_transcript_pipeline))
      = replicate 19 (example_segment (str ''old'') (str ''en''))"
    by (simp add: full_transcript_pipeline_def replicate_20)
  ultimately show ?thesis
    by (simp add: full_transcript_pipeline_def Pipeline_init_def Stats_init_def)
qed

lemma transcribe_model_raises:
  "transcribe world_model_raises (Some [1 / 2]) = (Inl RuntimeError, [[1 / 2]])"
proof -
  have same: "np_rms world_model_raises = np_rms example_world"
      "prepare_audio world_model_raises [1 / 2] = prepare_audio example_world [1 / 2]"
    by (simp_all add: world_model_raises_def prepare_audio_def Let_def)
  have "run_model world_model_raises a = Inl RuntimeError" for a
    by (simp add: world_model_raises_def)
  with loud_example show ?thesis
    by (simp add: transcribe_def same prepare_example)
qed

text \<open>
  Claim C2 asks that an exception of \<^verbatim>\<open>transcribe\<close> be caught and the chunk skipped. The
  call is not guarded: with two chunks queued and a model that raises on the first, the
  exception leaves the worker, and the pass for the second chunk never runs.
\<close>

theorem whisper_worker_uncaught_exception:
  "whisper_worker_body world_model_raises two_chunk_pipeline = Inl RuntimeError
   \<and> whisper_worker [world_model_raises, example_world] two_chunk_pipeline = Inl RuntimeError"
proof -
  have body: "whisper_worker_body world_model_raises two_chunk_pipeline = Inl RuntimeError"
    by (simp add: whisper_worker_body_def get_timeout_def get_nowait_def
        two_chunk_pipeline_def transcribe_model_raises)
  moreover have "running two_chunk_pipeline"
    by (simp add: two_chunk_pipeline_def)
  ultimately show ?thesis
    by simp
qed

section \<open>Properties of start-up\<close>

lemma start_raises_stopped:
  assumes "\<not> running s" and "start w s = Inl (e, s')"
  shows "\<not> running s' \<and> threads s' = threads s"
  using assms
  by (auto simp: start_def WhisperEngine_init_def AudioCapture_init_def Let_def
      split: option.splits sum.splits prod.splits)

lemma start_returns_running:
  assumes "\<not> running s" and "start w s = Inr s'"
  shows "running s'"
  using assms
  by (auto simp: start_def WhisperEngine_init_def AudioCapture_init_def Let_def
      split: option.splits sum.splits prod.splits)

lemma start_raises_iff:
  assumes "\<not> running s"
  shows "isl (start w s) \<longleftrightarrow>
     load_model w \<noteq> None \<or> pyaudio_init w \<noteq> None
     \<or> resolve_device w (device_index s) = None \<or> open_stream w \<noteq> None"
  using assms
  by (auto simp: start_def WhisperEngine_init_def AudioCapture_init_def
      AudioCapture_start_def py_or_def Let_def
      split: option.splits sum.splits prod.splits)

text \<open>
  Claim C5, amended. On a stopped pipeline, \<^verbatim>\<open>start()\<close> raises to its caller exactly
  when loading the recognition model fails, creating the audio handle fails, no capture
  device is found, or opening the stream fails; then the running flag is still clear and
  no thread was created. The translation service does not enter this condition: its
  connection check and its warm-up request catch their own failures. When \<^verbatim>\<open>start()\<close>
  returns, the pipeline is running.
\<close>

theorem start_failure_leaves_stopped:
  assumes "\<not> running s"
  shows "(\<forall>e s'. start w s = Inl (e, s') \<longrightarrow> \<not> running s' \<and> threads s' = threads s)
     \<and> (\<forall>s'. start w s = Inr s' \<longrightarrow> running s')
     \<and> (isl (start w s) \<longleftrightarrow>
           load_model w \<noteq> None \<or> pyaudio_init w \<noteq> None
           \<or> resolve_device w (device_index s) = None \<or> open_stream w \<noteq> None)"
  using assms start_raises_stopped start_returns_running start_raises_iff
  by blast

theorem start_failure_leaves_stopped_witness:
  "\<not> running (Pipeline_init 4 None)
   \<and> load_model (example_world\<lparr>load_model := Some OSError\<rparr>) \<noteq> None
   \<and> isl (start (example_world\<lparr>load_model := Some OSError\<rparr>) (Pipeline_init 4 None))
   \<and> \<not> running (snd (projl (start (example_world\<lparr>load_model := Some OSError\<rparr>)
                                (Pipeline_init 4 None))))"
proof -
  let ?w = "example_world\<lparr>load_model := Some OSError\<rparr>"
  let ?p = "Pipeline_init 4 None"
  have stopped: "\<not> running ?p"
    by (simp add: Pipeline_init_def)
  have fails: "load_model ?w \<noteq> None"
    by simp
  note inst = start_failure_leaves_stopped [OF stopped, of ?w]
  from inst fails have raised: "isl (start ?w ?p)"
    by blast
  then obtain e s' where res: "start ?w ?p = Inl (e, s')"
    by (cases "start ?w ?p") auto
  with inst have "\<not> running s'"
    by blast
  with res have "\<not> running (snd (projl (start ?w ?p)))"
    by simp
  with stopped fails raised show ?thesis
    by blast
qed

lemma warm_up_down:
  "\<not> fst (warm_up world_ollama_down (fst (OllamaEngine_init world_ollama_down)))"
proof -
  have "strip [1047, 1076, 1088, 1072, 1074, 1089, 1090, 1074, 1091, 1081, 1090, 1077]
      = [1047, 1076, 1088, 1072, 1074, 1089, 1090, 1074, 1091, 1081, 1090, 1077]"
    by (simp add: strip_def isspace_def)
  moreover have "chat world_ollama_down r = Inl ConnectionError" for r
    by (simp add: world_ollama_down_def)
  ultimately show ?thesis
    by (simp add: warm_up_def translate_def Let_def)
qed

text \<open>
  As stated, with an unreachable translation service among the start-up failures, the
  claim fails: with the service down, the warm-up fails, \<^verbatim>\<open>start()\<close> still returns and
  the pipeline is running.
\<close>

theorem start_with_service_down_counterexample:
  "tags world_ollama_down = TagsConnectionError
   \<and> \<not> fst (warm_up world_ollama_down (fst (OllamaEngine_init world_ollama_down)))
   \<and> \<not> isl (start world_ollama_down (Pipeline_init 4 None))
   \<and> running (projr (start world_ollama_down (Pipeline_init 4 None)))"
proof -
  have w: "load_model world_ollama_down = None" "pyaudio_init world_ollama_down = None"
      "open_stream world_ollama_down = None"
      "tags world_ollama_down = TagsConnectionError"
    by (simp_all add: world_ollama_down_def example_world_def)
  have dev: "resolve_device world_ollama_down None \<noteq> None"
    by (simp add: resolve_device_def get_default_loopback_device_def
        world_ollama_down_def example_world_def)
  have started: "\<not> isl (start world_ollama_down (Pipeline_init 4 None))"
    using w dev
    by (simp add: start_def WhisperEngine_init_def AudioCapture_init_def
        AudioCapture_start_def py_or_def Let_def Pipeline_init_def
        split: option.splits)
  then obtain s' where res: "start world_ollama_down (Pipeline_init 4 None) = Inr s'"
    by (cases "start world_ollama_down (Pipeline_init 4 None)") auto
  moreover have "running s'"
    using res w dev
    by (auto simp: start_def WhisperEngine_init_def AudioCapture_init_def
        AudioCapture_start_def py_or_def Let_def Pipeline_init_def
        split: option.splits)
  ultimately show ?thesis
    using w(4) warm_up_down started by simp
qed

section \<open>Properties of the translation worker\<close>

lemma strip_Nil: "strip [] = []"
  by (simp add: strip_def)

lemma translate_None_iff:
  assumes "strip t \<noteq> []"
  shows "fst (translate w eng t lang) = None \<longleftrightarrow>
     (lang \<noteq> str ''ru'' \<and> lang \<noteq> str ''en'')
     \<or> isl (chat w (chat_request eng
                (if lang = str ''ru'' then prompt_ru_to_en eng else prompt_en_to_ru eng)
                (strip t)))"
proof -
  from assms have "t \<noteq> []"
    using strip_Nil by auto
  with assms show ?thesis
    by (auto simp: translate_def Let_def split: sum.splits requests_error.splits)
qed

lemma ollama_worker_body_empty:
  assumes "items (transcript_queue s) = []"
  shows "ollama_worker_body wn s = Inr (s, None)"
  using assms by (simp add: ollama_worker_body_def get_timeout_def get_nowait_def)

lemma ollama_worker_body_segment:
  assumes "items (transcript_queue s) = seg # rest" and "ollama s = Some eng"
  shows "\<exists>s'. ollama_worker_body wn s =
           Inr (s', Some (PipelineItem_init (snd wn) seg
                            (fst (translate (fst wn) eng (text seg) (language seg)))))
     \<and> items (transcript_queue s') = rest
     \<and> running s' = running s \<and> ollama s' = ollama s"
  using assms
  by (simp add: ollama_worker_body_def get_timeout_def get_nowait_def Let_def)

text \<open>
  Claim C3. The translation worker runs on a started pipeline whose transcript queue holds
  segments of non-blank text, which is what the recognition engine produces. Over any
  number of passes it returns normally, and the items it hands to the sink are, in order,
  one per segment popped: each carries that segment, and its translation is absent exactly
  when the segment's language tag is neither \<open>ru\<close> nor \<open>en\<close> or the request to the
  translation service failed. A failed or skipped translation stops neither the delivery of
  that item nor the passes after it.
\<close>

theorem ollama_worker_delivers_every_segment:
  assumes "running s" and "ollama s = Some eng"
    and "\<forall>seg \<in> set (items (transcript_queue s)). strip (text seg) \<noteq> []"
  shows "\<exists>s' delivered. ollama_worker wns s = Inr (s', delivered)
     \<and> list_all2
         (\<lambda>item (seg, wn).
            transcript item = seg
            \<and> (translation item = None \<longleftrightarrow>
                 (language seg \<noteq> str ''ru'' \<and> language seg \<noteq> str ''en'')
                 \<or> isl (chat (fst wn) (chat_request eng
                            (if language seg = str ''ru'' then prompt_ru_to_en eng
                             else prompt_en_to_ru eng)
                            (strip (text seg))))))
         delivered (zip (items (transcript_queue s)) wns)"
  using assms
proof (induction wns arbitrary: s)
  case Nil
  then show ?case by simp
next
  case (Cons wn wns)
  show ?case
  proof (cases "items (transcript_queue s)")
    case Nil
    have body: "ollama_worker_body wn s = Inr (s, None)"
      using Nil by (rule ollama_worker_body_empty)
    from Cons.IH [OF Cons.prems] Nil
    obtain s' where "ollama_worker wns s = Inr (s', [])"
      by auto
    with body Cons.prems(1) Nil show ?thesis
      by simp
  next
    case (Cons seg rest)
    let ?item = "PipelineItem_init (snd wn) seg
        (fst (translate (fst wn) eng (text seg) (language seg)))"
    from ollama_worker_body_segment [OF Cons Cons.prems(2), of wn]
    obtain s1 where body: "ollama_worker_body wn s = Inr (s1, Some ?item)"
      and rest: "items (transcript_queue s1) = rest"
      and run1: "running s1" and eng1: "ollama s1 = Some eng"
      using Cons.prems(1,2) by auto
    have nonblank: "\<forall>seg \<in> set (items (transcript_queue s1)). strip (text seg) \<noteq> []"
      using Cons.prems(3) Cons rest by simp
    from Cons.IH [OF run1 eng1 nonblank] rest
    obtain s2 later where later: "ollama_worker wns s1 = Inr (s2, later)"
      and rel: "list_all2
         (\<lambda>item (seg, wn).
            transcript item = seg
            \<and> (translation item = None \<longleftrightarrow>
                 (language seg \<noteq> str ''ru'' \<and> language seg \<noteq> str ''en'')
                 \<or> isl (chat (fst wn) (chat_request eng
                            (if language seg = str ''ru'' then prompt_ru_to_en eng
                             else prompt_en_to_ru eng)
                            (strip (text seg))))))
         later (zip rest wns)"
      by auto
    have seg_ok: "strip (text seg) \<noteq> []"
      using Cons.prems(3) Cons by simp
    have head: "transcript ?item = seg
        \<and> (translation ?item = None \<longleftrightarrow>
             (language seg \<noteq> str ''ru'' \<and> language seg \<noteq> str ''en'')
             \<or> isl (chat (fst wn) (chat_request eng
                        (if language seg = str ''ru'' then prompt_ru_to_en eng
                         else prompt_en_to_ru eng)
                        (strip (text seg)))))"
      using translate_None_iff [OF seg_ok, of "fst wn" eng "language seg"]
      by (simp add: PipelineItem_init_def)
    have run: "ollama_worker (wn # wns) s = Inr (s2, ?item # later)"
      using Cons.prems(1) body later by simp
    show ?thesis
      unfolding run Cons using head rel by simp
  qed
qed

lemma strip_examples:
  "strip [1055, 1088, 1080, 1074, 1077, 1090] = [1055, 1088, 1080, 1074, 1077, 1090]"
  "strip (str ''bonjour'') = str ''bonjour''"
  "strip (str ''stop'') = str ''stop''"
  by (simp_all add: strip_def isspace_def str_def)

lemma tag_examples:
  "str ''fr'' \<noteq> str ''ru''" "str ''fr'' \<noteq> str ''en''" "str ''en'' \<noteq> str ''ru''"
  "[1055, 1088, 1080, 1074, 1077, 1090] \<noteq> str ''stop''"
  "[1055, 1088, 1080, 1074, 1077, 1090] \<noteq> []" "str ''bonjour'' \<noteq> []" "str ''stop'' \<noteq> []"
  by (simp_all add: str_def)

lemma chat_example:
  "chat example_world r = (if user_content r = str ''stop'' then Inl Timeout else Inr (str ''Hello''))"
  by (simp add: example_world_def)

theorem ollama_worker_delivers_every_segment_witness:
  "running three_segment_pipeline
   \<and> ollama three_segment_pipeline = Some (fst (OllamaEngine_init example_world))
   \<and> list_all (\<lambda>seg. strip (text seg) \<noteq> []) (items (transcript_queue three_segment_pipeline))
   \<and> (\<exists>s' delivered.
         ollama_worker [(example_world, 1 :: real), (example_world, 2), (example_world, 3)]
           three_segment_pipeline = Inr (s', delivered)
         \<and> map transcript delivered = items (transcript_queue three_segment_pipeline)
         \<and> map (\<lambda>item. translation item = None) delivered = [False, True, True])"
proof -
  let ?eng = "fst (OllamaEngine_init example_world)"
  let ?s1 = "example_segment [1055, 1088, 1080, 1074, 1077, 1090] (str ''ru'')"
  let ?s2 = "example_segment (str ''bonjour'') (str ''fr'')"
  let ?s3 = "example_segment (str ''stop'') (str ''en'')"
  have run: "running three_segment_pipeline"
    by (simp add: three_segment_pipeline_def)
  have eng: "ollama three_segment_pipeline = Some ?eng"
    by (simp add: three_segment_pipeline_def)
  have q: "items (transcript_queue three_segment_pipeline) = [?s1, ?s2, ?s3]"
    by (simp add: three_segment_pipeline_def)
  have nb: "\<forall>seg \<in> set (items (transcript_queue three_segment_pipeline)). strip (text seg) \<noteq> []"
    by (simp add: q example_segment_def strip_examples tag_examples)
  from ollama_worker_delivers_every_segment [OF run eng nb,
      of "[(example_world, 1 :: real), (example_world, 2), (example_world, 3)]"]
  obtain s' delivered where
    res: "ollama_worker [(example_world, 1 :: real), (example_world, 2), (example_world, 3)]
           three_segment_pipeline = Inr (s', delivered)"
    and rel: "list_all2
         (\<lambda>item (seg, wn).
            transcript item = seg
            \<and> (translation item = None \<longleftrightarrow>
                 (language seg \<noteq> str ''ru'' \<and> language seg \<noteq> str ''en'')
                 \<or> isl (chat (fst wn) (chat_request ?eng
                            (if language seg = str ''ru'' then prompt_ru_to_en ?eng
                             else prompt_en_to_ru ?eng)
                            (strip (text seg))))))
         delivered
         (zip (items (transcript_queue three_segment_pipeline))
            [(example_world, 1 :: real), (example_world, 2), (example_world, 3)])"
    by blast
  from rel obtain i1 i2 i3 where d: "delivered = [i1, i2, i3]"
    and t: "transcript i1 = ?s1" "transcript i2 = ?s2" "transcript i3 = ?s3"
    and n: "translation i1 \<noteq> None" "translation i2 = None" "translation i3 = None"
    unfolding q
    by (auto simp: list_all2_Cons2 example_segment_def strip_examples tag_examples
        chat_example chat_request_def)
  from res d t n q have fin: "ollama_worker [(example_world, 1 :: real), (example_world, 2), (example_world, 3)]
           three_segment_pipeline = Inr (s', delivered)
         \<and> map transcript delivered = items (transcript_queue three_segment_pipeline)
         \<and> map (\<lambda>item. translation item = None) delivered = [False, True, True]"
    by simp
  then have "\<exists>delivered. ollama_worker [(example_world, 1 :: real), (example_world, 2), (example_world, 3)]
           three_segment_pipeline = Inr (s', delivered)
         \<and> map transcript delivered = items (transcript_queue three_segment_pipeline)
         \<and> map (\<lambda>item. translation item = None) delivered = [False, True, True]"
    by (rule exI)
  then have ex: "\<exists>s' delivered. ollama_worker [(example_world, 1 :: real), (example_world, 2), (example_world, 3)]
           three_segment_pipeline = Inr (s', delivered)
         \<and> map transcript delivered = items (transcript_queue three_segment_pipeline)
         \<and> map (\<lambda>item. translation item = None) delivered = [False, True, True]"
    by (rule exI)
  have la: "list_all (\<lambda>seg. strip (text seg) \<noteq> [])
      (items (transcript_queue three_segment_pipeline))"
    using nb by (simp add: list_all_iff)
  show ?thesis
    by (rule conjI [OF run conjI [OF eng conjI [OF la ex]]])
qed

section \<open>Invariants behind the hypotheses\<close>

text \<open>
  The recognition engine only emits segments whose text is stripped and not empty, and the
  recognition worker puts nothing else on the transcript queue: the queue of a pipeline
  keeps holding segments of non-blank text.
\<close>

lemma dropWhile_rev_keeps_head:
  assumes "\<not> P x"
  shows "\<exists>ys. rev (dropWhile P (rev (x # xs))) = x # ys"
proof -
  have "dropWhile P (rev xs @ [x]) = dropWhile P (rev xs) @ [x] \<or>
        dropWhile P (rev xs @ [x]) = [x]"
    using assms by (simp add: dropWhile_append)
  then show ?thesis
  proof
    assume "dropWhile P (rev xs @ [x]) = dropWhile P (rev xs) @ [x]"
    then have "rev (dropWhile P (rev (x # xs))) = x # rev (dropWhile P (rev xs))"
      by simp
    then show ?thesis ..
  next
    assume "dropWhile P (rev xs @ [x]) = [x]"
    then have "rev (dropWhile P (rev (x # xs))) = x # []"
      by simp
    then show ?thesis ..
  qed
qed

lemma strip_idem: "strip (strip t) = strip t"
proof (cases "dropWhile isspace t")
  case Nil
  then have blank: "strip t = []"
    by (simp only: strip_def rev.simps dropWhile.simps)
  have "strip [] = []"
    by (simp add: strip_def)
  with blank show ?thesis
    by (simp only:)
next
  case (Cons x xs)
  then have nx: "\<not> isspace x"
    by (metis hd_dropWhile list.sel(1) list.distinct(1))
  from nx dropWhile_rev_keeps_head [of isspace x xs]
  obtain ys where ys: "rev (dropWhile isspace (rev (x # xs))) = x # ys"
    by blast
  have "strip t = x # ys"
    by (simp only: strip_def Cons ys)
  moreover have "dropWhile isspace (x # ys) = x # ys"
    using nx by simp
  moreover have "dropWhile isspace (rev (x # ys)) = rev (x # ys)"
  proof -
    have "rev (x # ys) = dropWhile isspace (rev (x # xs))"
      using ys by (metis rev_rev_ident)
    then show ?thesis
      by (simp only: dropWhile_idem)
  qed
  ultimately show ?thesis
    by (simp add: strip_def)
qed

lemma collect_results_nonblank:
  "seg \<in> set (collect_results info segs) \<Longrightarrow> strip (text seg) \<noteq> []"
  by (induction segs) (auto simp: Let_def strip_idem split: if_splits)

lemma transcribe_nonblank:
  assumes "fst (transcribe w a) = Inr segs" and "seg \<in> set segs"
  shows "strip (text seg) \<noteq> []"
  using assms collect_results_nonblank
  by (auto simp: transcribe_def Let_def split: option.splits if_splits sum.splits prod.splits)

lemma whisper_worker_put_frame:
  assumes "whisper_worker_put s seg = Inr s'"
  shows "set (items (transcript_queue s')) \<subseteq> insert seg (set (items (transcript_queue s)))
     \<and> audio_queue s' = audio_queue s \<and> stats s' = stats s"
  using assms
  by (auto simp: whisper_worker_put_def put_nowait_def get_nowait_def
      split: if_splits list.splits)

lemma whisper_worker_puts_frame:
  assumes "whisper_worker_puts s segs = Inr s'"
  shows "set (items (transcript_queue s')) \<subseteq> set segs \<union> set (items (transcript_queue s))
     \<and> audio_queue s' = audio_queue s \<and> stats s' = stats s"
  using assms
proof (induction segs arbitrary: s)
  case Nil
  then show ?case by simp
next
  case (Cons seg segs)
  then obtain s1 where put: "whisper_worker_put s seg = Inr s1"
    and rest: "whisper_worker_puts s1 segs = Inr s'"
    by (auto split: sum.splits)
  from whisper_worker_put_frame [OF put] Cons.IH [OF rest] show ?case
    by auto
qed

lemma whisper_worker_body_nonblank:
  assumes "\<forall>seg \<in> set (items (transcript_queue s)). strip (text seg) \<noteq> []"
    and "whisper_worker_body w s = Inr s'"
  shows "\<forall>seg \<in> set (items (transcript_queue s')). strip (text seg) \<noteq> []"
proof (cases "items (audio_queue s)")
  case Nil
  with assms show ?thesis
    by (simp add: whisper_worker_body_def get_timeout_def get_nowait_def)
next
  case (Cons a rest)
  with assms(2) obtain segs st where tr: "fst (transcribe w (Some a)) = Inr segs"
    and puts: "whisper_worker_puts
        (s\<lparr>audio_queue := (audio_queue s)\<lparr>items := rest\<rparr>, stats := st\<rparr>) segs = Inr s'"
    by (auto simp: whisper_worker_body_def get_timeout_def get_nowait_def Let_def
        split: option.splits sum.splits if_splits)
  from whisper_worker_puts_frame [OF puts]
  have "set (items (transcript_queue s')) \<subseteq> set segs \<union> set (items (transcript_queue s))"
    by simp
  with assms(1) transcribe_nonblank [OF tr] show ?thesis
    by blast
qed

text \<open>
  A chunk is counted as captured before it enters the audio queue and as transcribed after
  it has left it, so the transcribed count and the queue length together never exceed the
  captured count: the coverage is computed from counters with \<open>transcribed \<le> captured\<close>.
\<close>

lemma audio_producer_body_counters:
  assumes "audio_producer_body w s chunk = Inr s'"
    and "chunks_transcribed (stats s) + int (qsize (audio_queue s)) \<le> chunks_captured (stats s)"
  shows "chunks_transcribed (stats s') + int (qsize (audio_queue s')) \<le> chunks_captured (stats s')
     \<and> chunks_transcribed (stats s') = chunks_transcribed (stats s)"
  using assms
  by (auto simp: audio_producer_body_def audio_producer_put_def put_nowait_def get_nowait_def
      qsize_def Let_def split: option.splits if_splits list.splits)

lemma whisper_worker_body_counters:
  assumes "whisper_worker_body w s = Inr s'"
    and "chunks_transcribed (stats s) + int (qsize (audio_queue s)) \<le> chunks_captured (stats s)"
    and "0 \<le> chunks_transcribed (stats s)"
  shows "chunks_transcribed (stats s') + int (qsize (audio_queue s')) \<le> chunks_captured (stats s')
     \<and> 0 \<le> chunks_transcribed (stats s')"
proof (cases "items (audio_queue s)")
  case Nil
  with assms show ?thesis
    by (simp add: whisper_worker_body_def get_timeout_def get_nowait_def)
next
  case (Cons a rest)
  with assms(1) obtain segs st where
    puts: "whisper_worker_puts
        (s\<lparr>audio_queue := (audio_queue s)\<lparr>items := rest\<rparr>, stats := st\<rparr>) segs = Inr s'"
    and st: "chunks_transcribed st = chunks_transcribed (stats s) + 1"
      "chunks_captured st = chunks_captured (stats s)"
    by (auto simp: whisper_worker_body_def get_timeout_def get_nowait_def Let_def
        split: option.splits sum.splits if_splits)
  from whisper_worker_puts_frame [OF puts] Cons assms(2,3) st show ?thesis
    by (simp add: qsize_def)
qed

end
